theory Spec2Isabelle
  imports Complex_Main "HOL-Library.Sublist"
begin

section \<open>Vault event source: exceptions\<close>

text \<open>
  Source: \<^verbatim>\<open>plugins/event_source/vault_events.py\<close>.  Python strings are modelled as
  \<open>string\<close>, the list of the bytes of their UTF-8 encoding; every literal of the source
  used below is ASCII, so for them bytes and code points coincide.  The one exception is
  the filter expression: it is the string that the URL builder hands to the UTF-8
  encoder, and a Python \<^verbatim>\<open>str\<close> may hold code points that have no UTF-8 encoding, so
  it is modelled as the list of its code points (natural numbers below \<open>0x110000\<close>).
\<close>

text \<open>
  The exception classes that the \<^verbatim>\<open>except\<close> clauses of the source name or that reach
  them, with the subclass relation of Python and of \<^verbatim>\<open>websockets\<close>:
  \<^verbatim>\<open>JSONDecodeError\<close>, \<^verbatim>\<open>UnicodeDecodeError\<close> and \<^verbatim>\<open>UnicodeEncodeError\<close> are
  \<^verbatim>\<open>ValueError\<close>s, \<^verbatim>\<open>ConnectionClosed\<close> is a \<^verbatim>\<open>WebSocketException\<close>,
  \<^verbatim>\<open>SSLError\<close> is an \<^verbatim>\<open>OSError\<close>.  \<open>RuntimeError\<close> stands for any class outside
  these families.
\<close>

datatype exc_class =
    CancelledError
  | ConnectionClosed
  | WebSocketException
  | OSError
  | SSLError
  | JSONDecodeError
  | UnicodeDecodeError
  | UnicodeEncodeError
  | ValueError
  | TypeError
  | AttributeError
  | RuntimeError

datatype py_exc = Exc (exc_cls: exc_class) (exc_msg: string)

definition issubclass :: "exc_class \<Rightarrow> exc_class \<Rightarrow> bool" where
  "issubclass c d \<longleftrightarrow>
     c = d \<or>
     (c, d) \<in> set [(JSONDecodeError, ValueError), (UnicodeDecodeError, ValueError),
                  (UnicodeEncodeError, ValueError),
                  (ConnectionClosed, WebSocketException), (SSLError, OSError)]"

text \<open>\<^verbatim>\<open>except (C1, ..., Cn)\<close> catches \<open>e\<close> when its class is some \<open>Ci\<close> or a subclass of it.\<close>

definition caught_by :: "py_exc \<Rightarrow> exc_class list \<Rightarrow> bool" where
  "caught_by e cs = list_ex (issubclass (exc_cls e)) cs"

section \<open>URL builder\<close>

subsection \<open>The string methods the builder calls\<close>

text \<open>\<^verbatim>\<open>s.startswith(p)\<close>: \<open>p\<close> is a prefix of \<open>s\<close>, compared character by character.\<close>

definition startswith :: "string \<Rightarrow> string \<Rightarrow> bool" where
  "startswith s p = prefix p s"

text \<open>
  \<^verbatim>\<open>s.replace(old, new)\<close> with no count: every non-overlapping occurrence of \<open>old\<close>,
  scanning from the left, is replaced.  For the empty \<open>old\<close> Python puts \<open>new\<close> before
  every character and at the end.
\<close>

function py_replace :: "string \<Rightarrow> string \<Rightarrow> string \<Rightarrow> string" where
  "py_replace old new s =
     (if old = [] then new @ concat (map (\<lambda>c. c # new) s)
      else if s = [] then []
      else if prefix old s then new @ py_replace old new (drop (length old) s)
      else hd s # py_replace old new (tl s))"
  by pat_completeness auto
termination
  by (relation "measure (\<lambda>(old, new, s). length s)") auto

declare py_replace.simps [simp del]

subsection \<open>UTF-8 (\<^verbatim>\<open>str.encode\<close> and \<^verbatim>\<open>bytes.decode\<close>)\<close>

text \<open>
  \<^verbatim>\<open>s.encode('utf-8', 'strict')\<close>, code point by code point: one to four bytes, and no
  encoding for a surrogate (\<open>0xD800\<close> to \<open>0xDFFF\<close>).  A \<^verbatim>\<open>str\<close> holds no code point
  from \<open>0x110000\<close> on.
\<close>

definition utf8_encode_cp :: "nat \<Rightarrow> string option" where
  "utf8_encode_cp c =
     (if c < 0x80 then Some [char_of c]
      else if c < 0x800 then Some [char_of (0xC0 + c div 64), char_of (0x80 + c mod 64)]
      else if 0xD800 \<le> c \<and> c \<le> 0xDFFF then None
      else if c < 0x10000 then
        Some [char_of (0xE0 + c div 4096), char_of (0x80 + c div 64 mod 64),
              char_of (0x80 + c mod 64)]
      else if c < 0x110000 then
        Some [char_of (0xF0 + c div 262144), char_of (0x80 + c div 4096 mod 64),
              char_of (0x80 + c div 64 mod 64), char_of (0x80 + c mod 64)]
      else None)"

text \<open>
  The strict encoder raises \<^verbatim>\<open>UnicodeEncodeError\<close> at the first code point that has no
  encoding.  The text kept with the exception is its \<^verbatim>\<open>reason\<close>; the full message also
  names the character and its position, which nothing in the program reads.
\<close>

fun utf8_encode :: "nat list \<Rightarrow> py_exc + string" where
  "utf8_encode [] = Inr []"
| "utf8_encode (c # cs) =
     (case utf8_encode_cp c of
        None \<Rightarrow> Inl (Exc UnicodeEncodeError ''surrogates not allowed'')
      | Some bs \<Rightarrow> (case utf8_encode cs of Inl e \<Rightarrow> Inl e | Inr r \<Rightarrow> Inr (bs @ r)))"






subsection \<open>Percent-encoding (\<^verbatim>\<open>urllib.parse.quote\<close> and \<^verbatim>\<open>urllib.parse.unquote\<close>)\<close>

text \<open>
  \<^verbatim>\<open>quote(s)\<close> with the defaults \<^verbatim>\<open>safe='/'\<close>, \<^verbatim>\<open>encoding='utf-8'\<close> and
  \<^verbatim>\<open>errors='strict'\<close>: the string is encoded, which may raise, and
  \<^verbatim>\<open>quote_from_bytes\<close> keeps the bytes that are ASCII letters, digits, one of
  \<^verbatim>\<open>_.-~\<close> or \<^verbatim>\<open>/\<close>, and writes every other byte as \<^verbatim>\<open>%XX\<close> with two upper-case
  hexadecimal digits.  The result is an ASCII string.
\<close>

definition always_safe :: "char \<Rightarrow> bool" where
  "always_safe c \<longleftrightarrow>
     c \<in> set ''ABCDEFGHIJKLMNOPQRSTUVWXYZabcdefghijklmnopqrstuvwxyz0123456789_.-~''"

definition hex_digit :: "nat \<Rightarrow> char" where
  "hex_digit n = ''0123456789ABCDEF'' ! (n mod 16)"

definition quote_byte :: "char \<Rightarrow> string" where
  "quote_byte c =
     (if always_safe c \<or> c = CHR ''/'' then [c]
      else [CHR ''%'', hex_digit (of_char c div 16), hex_digit (of_char c mod 16)])"

definition quote_from_bytes :: "string \<Rightarrow> string" where
  "quote_from_bytes bs = concat (map quote_byte bs)"

definition quote :: "nat list \<Rightarrow> py_exc + string" where
  "quote s = (case utf8_encode s of Inl e \<Rightarrow> Inl e | Inr bs \<Rightarrow> Inr (quote_from_bytes bs))"






subsection \<open>\<^verbatim>\<open>_build_event_url\<close>\<close>

text \<open>
  The scheme conversion at the head of \<^verbatim>\<open>_build_event_url\<close> (the value of
  \<^verbatim>\<open>ws_url\<close>).
\<close>

definition ws_url :: "string \<Rightarrow> string" where
  "ws_url vault_addr =
     (if startswith vault_addr ''https://''
      then py_replace ''https://'' ''wss://'' vault_addr
      else py_replace ''http://'' ''ws://'' vault_addr)"

text \<open>
  The optional filter is \<open>None\<close> for Python's \<^verbatim>\<open>None\<close>; \<^verbatim>\<open>if filter_expression:\<close>
  is false for \<^verbatim>\<open>None\<close> and for the empty string.
\<close>

definition truthy :: "'a list option \<Rightarrow> bool" where
  "truthy v = (case v of None \<Rightarrow> False | Some s \<Rightarrow> s \<noteq> [])"

text \<open>
  The URL that \<^verbatim>\<open>_build_event_url\<close> returns, or the exception that leaves it: the
  call of \<^verbatim>\<open>quote\<close> is the only step that can raise.
\<close>

definition build_event_url ::
  "string \<Rightarrow> string \<Rightarrow> nat list option \<Rightarrow> py_exc + string" where
  "build_event_url vault_addr event_pattern filter_expression =
     (let event_url = ws_url vault_addr @ ''/v1/sys/events/subscribe/'' @ event_pattern
                        @ ''?json=true''
      in if truthy filter_expression
         then (case quote (the filter_expression) of
                 Inl e \<Rightarrow> Inl e
               | Inr encoded_filter \<Rightarrow> Inr (event_url @ ''&filter='' @ encoded_filter))
         else Inr event_url)"

section \<open>Python values and the decoder\<close>

text \<open>
  The values that travel through the plugin: what \<^verbatim>\<open>json.loads\<close> returns and what is
  put on the queue.  A \<^verbatim>\<open>dict\<close> with string keys is an association list in insertion
  order; a Python \<^verbatim>\<open>float\<close> is modelled as a real number.
\<close>

datatype pyval =
    PNone
  | PBool bool
  | PInt int
  | PFloat real
  | PStr string
  | PBytes string
  | PList "pyval list"
  | PDict "(string \<times> pyval) list"

fun type_name :: "pyval \<Rightarrow> string" where
  "type_name PNone = ''NoneType''"
| "type_name (PBool _) = ''bool''"
| "type_name (PInt _) = ''int''"
| "type_name (PFloat _) = ''float''"
| "type_name (PStr _) = ''str''"
| "type_name (PBytes _) = ''bytes''"
| "type_name (PList _) = ''list''"
| "type_name (PDict _) = ''dict''"

text \<open>
  \<^verbatim>\<open>event.get("event_type", "unknown")\<close>, evaluated as an argument of
  \<^verbatim>\<open>log.debug\<close> whatever the log level: only a \<^verbatim>\<open>dict\<close> has the method.
\<close>

fun get_event_type :: "pyval \<Rightarrow> py_exc + pyval" where
  "get_event_type (PDict d) =
     Inr (case map_of d ''event_type'' of None \<Rightarrow> PStr ''unknown'' | Some v \<Rightarrow> v)"
| "get_event_type v =
     Inl (Exc AttributeError
            ([CHR 0x27] @ type_name v @ [CHR 0x27] @ '' object has no attribute ''
               @ [CHR 0x27] @ ''get'' @ [CHR 0x27]))"

section \<open>Connection Supervisor (\<^verbatim>\<open>_stream_single_pattern\<close>)\<close>

text \<open>The arguments of \<^verbatim>\<open>_stream_single_pattern\<close> other than the queue.\<close>

record target =
  sp_vault_addr :: string
  sp_event_pattern :: string
  sp_headers :: "string \<rightharpoonup> string"
  sp_ping_interval :: int
  sp_verify_ssl :: bool
  sp_backoff_initial :: real
  sp_backoff_max :: real
  sp_filter_expression :: "nat list option"

text \<open>
  The body of the inner \<^verbatim>\<open>try\<close> for one message (lines 286 to 313): the event that
  is then put on the queue, or the exception that no inner \<^verbatim>\<open>except\<close> clause catches.
  \<^verbatim>\<open>json.loads\<close> belongs to the standard library and is the parameter \<open>loads\<close>: the
  value it returns, or the exception it raises.
\<close>

definition handle_message ::
  "(pyval \<Rightarrow> py_exc + pyval) \<Rightarrow> string \<Rightarrow> pyval \<Rightarrow> py_exc + pyval" where
  "handle_message loads event_pattern msg =
     (case (case loads msg of
              Inl e \<Rightarrow> Inl e
            | Inr event \<Rightarrow> (case get_event_type event of Inl e \<Rightarrow> Inl e | Inr _ \<Rightarrow> Inr event)) of
        Inr event \<Rightarrow> Inr event
      | Inl e \<Rightarrow>
          if caught_by e [JSONDecodeError] then
            Inr (PDict [(''raw'', msg), (''error'', PStr ''json_decode_failed''),
                        (''pattern'', PStr event_pattern)])
          else if caught_by e [UnicodeDecodeError, ValueError, TypeError] then
            Inr (PDict [(''raw'', msg), (''error'', PStr (exc_msg e)),
                        (''pattern'', PStr event_pattern)])
          else Inl e)"

text \<open>
  The supervisor is suspended at one of three awaits: opening the connection
  (\<open>Connecting\<close>), the next message of \<^verbatim>\<open>async for\<close> (\<open>Streaming\<close>), or
  \<^verbatim>\<open>asyncio.sleep(backoff)\<close> inside the handler (\<open>BackoffWait\<close>); or its coroutine has
  ended with an exception (\<open>Finished\<close>; the \<^verbatim>\<open>while True\<close> loop has no other exit).
  It owns the local variable \<open>backoff\<close>; \<open>sleeps\<close> records the delays passed to
  \<^verbatim>\<open>asyncio.sleep\<close>, oldest first.
\<close>

datatype control = Connecting | Streaming | BackoffWait | Finished py_exc

record supervisor =
  ctl :: control
  backoff :: real
  sleeps :: "real list"

text \<open>
  What the pending await does: it returns (for \<^verbatim>\<open>async for\<close>, \<open>Some msg\<close> is the next
  message and \<open>None\<close> the end of the iteration after a normal close), or it raises.
\<close>

datatype await_result = Returned "pyval option" | Raised py_exc

text \<open>The URL the supervisor connects to (line 254), or the exception of the builder.\<close>

definition sup_url :: "target \<Rightarrow> py_exc + string" where
  "sup_url tgt =
     build_event_url (sp_vault_addr tgt) (sp_event_pattern tgt) (sp_filter_expression tgt)"

text \<open>
  The coroutine up to its first await (lines 254 to 271).  The URL is built before the
  \<^verbatim>\<open>try\<close>, so an exception of the builder leaves the coroutine; otherwise it is
  suspended in the first \<^verbatim>\<open>connect\<close>, with \<open>backoff\<close> at its initial value.
\<close>

definition sup_start :: "target \<Rightarrow> supervisor" where
  "sup_start tgt =
     (case sup_url tgt of
        Inl e \<Rightarrow> \<lparr>ctl = Finished e, backoff = sp_backoff_initial tgt, sleeps = []\<rparr>
      | Inr url \<Rightarrow> \<lparr>ctl = Connecting, backoff = sp_backoff_initial tgt, sleeps = []\<rparr>)"

text \<open>
  The \<^verbatim>\<open>except\<close> clauses of the outer \<^verbatim>\<open>try\<close> (lines 318 to 334), for an exception
  leaving its body: cancellation is re-raised, a connection error starts the sleep, and
  anything else leaves the coroutine.
\<close>

definition on_exception :: "py_exc \<Rightarrow> supervisor \<Rightarrow> supervisor" where
  "on_exception e s =
     (if caught_by e [CancelledError] then s\<lparr>ctl := Finished e\<rparr>
      else if caught_by e [ConnectionClosed, WebSocketException, OSError, SSLError]
      then s\<lparr>ctl := BackoffWait, sleeps := sleeps s @ [backoff s]\<rparr>
      else s\<lparr>ctl := Finished e\<rparr>)"

text \<open>
  An exception raised by the pending await.  The sleep is inside the handler, where no
  clause of the same \<^verbatim>\<open>try\<close> applies any more, so whatever it raises leaves the
  coroutine.
\<close>

definition throw_in :: "py_exc \<Rightarrow> supervisor \<Rightarrow> supervisor" where
  "throw_in e s =
     (case ctl s of
        Finished _ \<Rightarrow> s
      | BackoffWait \<Rightarrow> s\<lparr>ctl := Finished e\<rparr>
      | _ \<Rightarrow> on_exception e s)"

text \<open>
  One step of the loop, with the contents of the queue threaded through
  (\<^verbatim>\<open>queue.put\<close> appends: the queue is taken to be unbounded, so the put does not wait).
\<close>

fun sup_step ::
  "(pyval \<Rightarrow> py_exc + pyval) \<Rightarrow> target \<Rightarrow> await_result \<Rightarrow> supervisor \<times> pyval list
     \<Rightarrow> supervisor \<times> pyval list" where
  "sup_step loads tgt (Raised e) (s, q) = (throw_in e s, q)"
| "sup_step loads tgt (Returned r) (s, q) =
     (case ctl s of
        Finished _ \<Rightarrow> (s, q)
      | Connecting \<Rightarrow> (s\<lparr>ctl := Streaming, backoff := sp_backoff_initial tgt\<rparr>, q)
      | Streaming \<Rightarrow>
          (case r of
             None \<Rightarrow> (s\<lparr>ctl := Connecting\<rparr>, q)
           | Some msg \<Rightarrow>
               (case handle_message loads (sp_event_pattern tgt) msg of
                  Inr event \<Rightarrow> (s, q @ [event])
                | Inl e \<Rightarrow> (on_exception e s, q)))
      | BackoffWait \<Rightarrow>
          (s\<lparr>ctl := Connecting, backoff := min (backoff s * 2) (sp_backoff_max tgt)\<rparr>, q))"

definition sup_run ::
  "(pyval \<Rightarrow> py_exc + pyval) \<Rightarrow> target \<Rightarrow> await_result list \<Rightarrow> supervisor \<times> pyval list
     \<Rightarrow> supervisor \<times> pyval list" where
  "sup_run loads tgt rs st = fold (sup_step loads tgt) rs st"

text \<open>A connection attempt that fails with \<open>e\<close>, followed by the completed sleep.\<close>

definition failed_attempt :: "py_exc \<Rightarrow> await_result list" where
  "failed_attempt e = [Raised e, Returned None]"

text \<open>
  The values of \<^verbatim>\<open>json.loads\<close> on the frames used as examples below; on these frames
  it agrees with the standard decoder, any other payload is taken as one the decoder
  rejects.
\<close>

definition loads_examples :: "pyval \<Rightarrow> py_exc + pyval" where
  "loads_examples msg =
     (if msg = PStr ''{\"event_type\":\"kv-v2/data-write\"}''
        then Inr (PDict [(''event_type'', PStr ''kv-v2/data-write'')])
      else if msg = PStr ''[1]'' then Inr (PList [PInt 1])
      else if msg = PStr ''5'' then Inr (PInt 5)
      else if msg = PStr ''\"s\"'' then Inr (PStr ''s'')
      else if msg = PStr ''true'' then Inr (PBool True)
      else if msg = PStr ''null'' then Inr PNone
      else Inl (Exc JSONDecodeError ''Expecting value: line 1 column 1 (char 0)''))"

section \<open>Fan-out Coordinator (\<^verbatim>\<open>_stream_multiple_patterns\<close>)\<close>

text \<open>
  A task created by \<^verbatim>\<open>asyncio.create_task\<close>: the queue object and the arguments its
  coroutine was called with, and the state of that coroutine.  The queue is a reference
  of an arbitrary type \<open>'q\<close>: the coordinator only passes it on.
\<close>

record 'q task =
  t_queue :: 'q
  t_target :: target
  t_sup :: supervisor

definition create_task :: "'q \<Rightarrow> target \<Rightarrow> 'q task" where
  "create_task queue tgt = \<lparr>t_queue = queue, t_target = tgt, t_sup = sup_start tgt\<rparr>"

text \<open>The loop of lines 362 to 379: \<^verbatim>\<open>tasks.append\<close> for each element, in order.\<close>

definition spawn_tasks ::
  "'q \<Rightarrow> string \<Rightarrow> string list \<Rightarrow> (string \<rightharpoonup> string) \<Rightarrow> int \<Rightarrow> bool \<Rightarrow> real \<Rightarrow> real
     \<Rightarrow> nat list option \<Rightarrow> 'q task list" where
  "spawn_tasks queue vault_addr event_paths headers ping_interval verify_ssl
       backoff_initial backoff_max filter_expression =
     map (\<lambda>pattern.
            create_task queue
              \<lparr>sp_vault_addr = vault_addr, sp_event_pattern = pattern, sp_headers = headers,
               sp_ping_interval = ping_interval, sp_verify_ssl = verify_ssl,
               sp_backoff_initial = backoff_initial, sp_backoff_max = backoff_max,
               sp_filter_expression = filter_expression\<rparr>)
         event_paths"

definition task_done :: "'q task \<Rightarrow> bool" where
  "task_done t = (case ctl (t_sup t) of Finished _ \<Rightarrow> True | _ \<Rightarrow> False)"

text \<open>
  \<^verbatim>\<open>task.cancel()\<close>: a \<^verbatim>\<open>CancelledError\<close> is thrown into the coroutine at the await
  where it is suspended, before it sees any other result; a finished task is left as
  it is.
\<close>

definition task_cancel :: "'q task \<Rightarrow> 'q task" where
  "task_cancel t = t\<lparr>t_sup := throw_in (Exc CancelledError []) (t_sup t)\<rparr>"

text \<open>
  \<^verbatim>\<open>await asyncio.gather(*tasks, return_exceptions=True)\<close> returns once every task
  is finished, whatever their outcomes; \<open>None\<close> says that it has not returned, some
  task being still running.
\<close>

definition gather_return_exceptions :: "'q task list \<Rightarrow> 'q task list option" where
  "gather_return_exceptions tasks = (if list_all task_done tasks then Some tasks else None)"

text \<open>
  The handler of lines 384 to 391, entered with the \<^verbatim>\<open>CancelledError\<close> \<open>e\<close> that the
  coordinator received while awaiting its tasks: the tasks as it leaves them and the
  exception it re-raises, or \<open>None\<close> when its second await does not return.
\<close>

definition on_cancelled :: "py_exc \<Rightarrow> 'q task list \<Rightarrow> ('q task list \<times> py_exc) option" where
  "on_cancelled e tasks =
     (case gather_return_exceptions (map task_cancel tasks) of
        None \<Rightarrow> None
      | Some finished \<Rightarrow> Some (finished, e))"

section \<open>Entry Point (\<^verbatim>\<open>main\<close>)\<close>

text \<open>
  The configuration mapping, with the options of the plugin's schema at their
  documented types.  \<open>None\<close> is an option that is not given.  \<^verbatim>\<open>event_paths\<close> is
  a single string or a list of strings.
\<close>

datatype event_paths_arg = OnePath string | PathList "string list"

record plugin_args =
  arg_vault_addr :: "string option"
  arg_vault_token :: "string option"
  arg_event_paths :: "event_paths_arg option"
  arg_verify_ssl :: "bool option"
  arg_ping_interval :: "int option"
  arg_backoff_initial :: "real option"
  arg_backoff_max :: "real option"
  arg_namespace :: "string option"
  arg_headers :: "(string \<rightharpoonup> string) option"
  arg_filter_expression :: "nat list option"

text \<open>Lines 481 to 494: the headers, with \<^verbatim>\<open>dict.update\<close> as the map override.\<close>

definition assemble_headers ::
  "string \<Rightarrow> string option \<Rightarrow> (string \<rightharpoonup> string) option \<Rightarrow> (string \<rightharpoonup> string)" where
  "assemble_headers vault_token namespace custom =
     (let headers = [''X-Vault-Token'' \<mapsto> vault_token];
          headers = (if truthy namespace
                     then headers(''X-Vault-Namespace'' \<mapsto> the namespace) else headers);
          custom_headers = (case custom of None \<Rightarrow> Map.empty | Some h \<Rightarrow> h)
      in if custom_headers \<noteq> Map.empty then headers ++ custom_headers else headers)"

text \<open>
  \<^verbatim>\<open>main\<close> up to the point where the coordinator has created its tasks: the
  \<^verbatim>\<open>ValueError\<close> of the validation, or the tasks of the call of
  \<^verbatim>\<open>_stream_multiple_patterns\<close> at lines 513 to 523.
\<close>

definition main :: "'q \<Rightarrow> plugin_args \<Rightarrow> py_exc + 'q task list" where
  "main queue args =
     (if \<not> truthy (arg_vault_addr args)
        then Inl (Exc ValueError ''vault_addr parameter is required'')
      else if \<not> truthy (arg_vault_token args)
        then Inl (Exc ValueError ''vault_token parameter is required'')
      else
        let vault_addr = the (arg_vault_addr args);
            vault_token = the (arg_vault_token args);
            event_paths = (case arg_event_paths args of
                             None \<Rightarrow> [''kv-v2/data-*'']
                           | Some (OnePath p) \<Rightarrow> [p]
                           | Some (PathList ps) \<Rightarrow> ps);
            headers = assemble_headers vault_token (arg_namespace args) (arg_headers args);
            verify_ssl = (case arg_verify_ssl args of None \<Rightarrow> True | Some b \<Rightarrow> b);
            ping_interval = (case arg_ping_interval args of None \<Rightarrow> 20 | Some n \<Rightarrow> n);
            backoff_initial = (case arg_backoff_initial args of None \<Rightarrow> 1 | Some x \<Rightarrow> x);
            backoff_max = (case arg_backoff_max args of None \<Rightarrow> 30 | Some x \<Rightarrow> x)
        in Inr (spawn_tasks queue vault_addr event_paths headers ping_interval verify_ssl
                  backoff_initial backoff_max (arg_filter_expression args)))"

section \<open>Properties of the URL builder\<close>

subsection \<open>Percent-encoding is inverted by decoding\<close>













subsection \<open>Decoding inverts the UTF-8 encoding\<close>





















subsection \<open>\<^verbatim>\<open>unquote\<close> on an ASCII string\<close>









subsection \<open>The scheme conversion\<close>

text \<open>The head of the address is converted as intended.\<close>

lemma ws_url_https: "startswith a ''https://'' \<Longrightarrow> startswith (ws_url a) ''wss://''"
proof -
  assume h: "startswith a ''https://''"
  then have "ws_url a = ''wss://'' @ py_replace ''https://'' ''wss://'' (drop (length ''https://'') a)"
    unfolding ws_url_def by (subst py_replace.simps) (auto simp: startswith_def)
  then show ?thesis by (simp add: startswith_def)
qed

lemma ws_url_http: "startswith a ''http://'' \<Longrightarrow> startswith (ws_url a) ''ws://''"
proof -
  assume h: "startswith a ''http://''"
  then have n: "\<not> startswith a ''https://''"
    by (auto simp: startswith_def prefix_def)
  from h have "py_replace ''http://'' ''ws://'' a = ''ws://'' @ py_replace ''http://'' ''ws://'' (drop (length ''http://'') a)"
    by (subst py_replace.simps) (auto simp: startswith_def)
  with n show ?thesis by (simp add: ws_url_def startswith_def)
qed

text \<open>
  Claim C2 says that the scheme conversion is a substitution of the prefix alone, no other
  occurrence of the scheme string in the address being altered.  The source calls
  \<^verbatim>\<open>str.replace\<close> without a count, so a later \<^verbatim>\<open>https://\<close> (or \<^verbatim>\<open>http://\<close>)
  inside the address is rewritten as well: for a base address that names an inner URL
  after the host, the inner scheme is changed too.
\<close>

theorem replace_rewrites_every_scheme_occurrence:
  "ws_url ''https://proxy.example/https://vault:8200'' = ''wss://proxy.example/wss://vault:8200''
   \<and> ws_url ''http://proxy.example/http://vault:8200'' = ''ws://proxy.example/ws://vault:8200''"
  by (simp add: ws_url_def startswith_def py_replace.simps)

subsection \<open>The URL with and without a filter\<close>

text \<open>
  Claim C7: with no filter expression, or with the empty one, the builder returns the
  converted base address, then \<^verbatim>\<open>/v1/sys/events/subscribe/\<close> and the pattern, then
  exactly \<^verbatim>\<open>?json=true\<close> with nothing after it; and the base
  \<^verbatim>\<open>http://127.0.0.1:8200\<close> with the pattern \<^verbatim>\<open>kv-v2/*\<close> gives
  \<^verbatim>\<open>ws://127.0.0.1:8200/v1/sys/events/subscribe/kv-v2/*?json=true\<close>.
\<close>

theorem url_without_filter:
  "build_event_url a p None
     = Inr (ws_url a @ ''/v1/sys/events/subscribe/'' @ p @ ''?json=true'')
   \<and> build_event_url a p (Some [])
       = Inr (ws_url a @ ''/v1/sys/events/subscribe/'' @ p @ ''?json=true'')
   \<and> build_event_url ''http://127.0.0.1:8200'' ''kv-v2/*'' None
       = Inr ''ws://127.0.0.1:8200/v1/sys/events/subscribe/kv-v2/*?json=true''"
proof (intro conjI)
  show "build_event_url a p None
          = Inr (ws_url a @ ''/v1/sys/events/subscribe/'' @ p @ ''?json=true'')"
    by (simp add: build_event_url_def truthy_def)
  show "build_event_url a p (Some [])
          = Inr (ws_url a @ ''/v1/sys/events/subscribe/'' @ p @ ''?json=true'')"
    by (simp add: build_event_url_def truthy_def)
  show "build_event_url ''http://127.0.0.1:8200'' ''kv-v2/*'' None
       = Inr ''ws://127.0.0.1:8200/v1/sys/events/subscribe/kv-v2/*?json=true''"
    by (simp add: build_event_url_def truthy_def ws_url_def startswith_def py_replace.simps)
qed





end
